theory Spec2Isabelle
  imports Main
begin

section \<open>The assessment-result endpoint of BookServer\<close>

text \<open>
  This theory embeds \<^verbatim>\<open>get_assessment_results\<close> of
  \<^verbatim>\<open>bookserver/routers/assessment.py\<close>, the handler of
  \<^verbatim>\<open>POST /assessment/results\<close>:
  \<^verbatim>\<open>
  async def get_assessment_results(request_data: AssessmentRequest, request: Request):
      if await is_instructor(request):
          if not request_data.sid:
              request_data.sid = request.state.user.username
      else:
          request_data.sid = request.state.user.username

      row = await fetch_last_answer_table_entry(request_data)
      if not row:
          return ""
      rslogger.debug(f"Returning {row}")
      return row
  \<close>
  The handler mutates its argument \<^verbatim>\<open>request_data\<close>, calls two collaborators that
  live in other modules and may raise, and logs. The model passes the mutated object
  explicitly, returns exceptions as values, and records every collaborator call, with
  the argument it was given, in the order the handler makes them.
\<close>

subsection \<open>Data\<close>

text \<open>
  Python values that the store lookup can hand back and the handler can return. The
  handler only tests the value for truth and returns it, so the JSON-like values and
  objects with attributes are enough. \<open>PyObject\<close> is an instance of a class that
  defines neither \<^verbatim>\<open>__bool__\<close> nor \<^verbatim>\<open>__len__\<close>, given by its attributes: the row
  object of a mapped table is one.
\<close>

datatype pyval =
    PyNone
  | PyBool bool
  | PyInt int
  | PyStr string
  | PyList "pyval list"
  | PyDict "(string \<times> pyval) list"
  | PyObject "(string \<times> pyval) list"

text \<open>
  Python's truth test, as \<^verbatim>\<open>if not row\<close> applies it. An object without
  \<^verbatim>\<open>__bool__\<close> and \<^verbatim>\<open>__len__\<close> is true whatever its attributes.
\<close>

fun truthy :: "pyval \<Rightarrow> bool" where
  "truthy PyNone = False"
| "truthy (PyBool b) = b"
| "truthy (PyInt i) = (i \<noteq> 0)"
| "truthy (PyStr s) = (s \<noteq> [])"
| "truthy (PyList xs) = (xs \<noteq> [])"
| "truthy (PyDict kvs) = (kvs \<noteq> [])"
| "truthy (PyObject attrs) = True"

text \<open>
  Modelled from the spec: the rows of the answer tables, the \<^verbatim>\<open>AnswerTableEntry\<close>
  of the spec, are declared with the tables, outside this module. The spec makes an
  entry an opaque record of the most recent answer recorded for a subject, a component
  and a course. An entry is the row object of its table or a record of the row's
  columns, of which a row has at least one.
\<close>

fun is_AnswerTableEntry :: "pyval \<Rightarrow> bool" where
  "is_AnswerTableEntry (PyObject attrs) = True"
| "is_AnswerTableEntry (PyDict cols) = (cols \<noteq> [])"
| "is_AnswerTableEntry v = False"

text \<open>
  The truth test on the optional string \<^verbatim>\<open>request_data.sid\<close>: \<^verbatim>\<open>None\<close> and
  the empty string are false.
\<close>

fun truthy_sid :: "string option \<Rightarrow> bool" where
  "truthy_sid None = False"
| "truthy_sid (Some s) = (s \<noteq> [])"

text \<open>
  Modelled from the spec: the class \<^verbatim>\<open>AssessmentRequest\<close> of
  \<^verbatim>\<open>bookserver/schemas.py\<close> is imported by the handler; its definition lies
  outside the module verified here. The spec gives it an optional \<^verbatim>\<open>sid\<close>, a component identifier
  \<^verbatim>\<open>div_id\<close>, a \<^verbatim>\<open>course\<close>, and further fields that the handler treats
  opaquely; those are the extension part of the record.
\<close>

record AssessmentRequest =
  sid :: "string option"
  div_id :: string
  course :: string

text \<open>
  The part of the framework's request object that the handler reads:
  \<^verbatim>\<open>request.state.user.username\<close>. A request without an authenticated identity
  has \<^verbatim>\<open>request.state.user = None\<close>.
\<close>

record AuthUser =
  username :: string

record RequestState =
  user :: "AuthUser option"

record Request =
  state :: RequestState

text \<open>
  Exceptions. \<open>Unauthorized\<close> is the \<^verbatim>\<open>HTTPException\<close> with status 401,
  \<open>AttributeError\<close> is what reading \<^verbatim>\<open>.username\<close> of \<^verbatim>\<open>None\<close> raises, and
  \<open>Raised\<close> stands for any other exception of a collaborator (a failing store, for
  one). The handler has no \<^verbatim>\<open>try\<close>, so each of them leaves it unchanged.
\<close>

datatype error =
    Unauthorized
  | AttributeError
  | Raised string

text \<open>The calls the handler makes to its collaborators, each with its argument.\<close>

datatype 'r call =
    IsInstructorCall Request
  | FetchCall 'r
  | DebugLog pyval

text \<open>
  What one invocation leaves behind: the value returned or the exception raised, the
  \<^verbatim>\<open>request_data\<close> object as the handler left it, and the calls made, in order.
\<close>

record 'r outcome =
  returned :: "error + pyval"
  data_after :: 'r
  calls :: "'r call list"

subsection \<open>The handler\<close>

text \<open>\<^verbatim>\<open>request.state.user.username\<close>\<close>

definition caller_username :: "Request \<Rightarrow> error + string" where
  "caller_username request =
     (case user (state request) of
        None \<Rightarrow> Inl AttributeError
      | Some u \<Rightarrow> Inr (username u))"

text \<open>
  The two branches that follow the identity check, given its answer: an instructor keeps
  a \<^verbatim>\<open>sid\<close> that passes the truth test and gets the own username otherwise;
  everybody else gets the own username.
\<close>

definition resolve_sid ::
  "bool \<Rightarrow> 'a AssessmentRequest_scheme \<Rightarrow> Request \<Rightarrow> error + 'a AssessmentRequest_scheme" where
  "resolve_sid instructor request_data request =
     (if instructor then
        (if \<not> truthy_sid (sid request_data) then
           (case caller_username request of
              Inl e \<Rightarrow> Inl e
            | Inr name \<Rightarrow> Inr (request_data\<lparr>sid := Some name\<rparr>))
         else Inr request_data)
      else
        (case caller_username request of
           Inl e \<Rightarrow> Inl e
         | Inr name \<Rightarrow> Inr (request_data\<lparr>sid := Some name\<rparr>)))"

text \<open>
  The handler. Its collaborators \<^verbatim>\<open>is_instructor\<close> (of \<^verbatim>\<open>bookserver/session.py\<close>)
  and \<^verbatim>\<open>fetch_last_answer_table_entry\<close> (of \<^verbatim>\<open>bookserver/crud.py\<close>) are
  parameters: any function that answers or raises. An exception of either, and the
  \<open>AttributeError\<close> of reading the username of a missing user, ends the run where
  it is raised.
\<close>

definition get_assessment_results ::
  "(Request \<Rightarrow> error + bool) \<Rightarrow> ('a AssessmentRequest_scheme \<Rightarrow> error + pyval) \<Rightarrow>
   'a AssessmentRequest_scheme \<Rightarrow> Request \<Rightarrow> 'a AssessmentRequest_scheme outcome" where
  "get_assessment_results is_instructor fetch_last_answer_table_entry request_data request =
     (case is_instructor request of
        Inl e \<Rightarrow>
          \<lparr>returned = Inl e, data_after = request_data,
           calls = [IsInstructorCall request]\<rparr>
      | Inr instructor \<Rightarrow>
          (case resolve_sid instructor request_data request of
             Inl e \<Rightarrow>
               \<lparr>returned = Inl e, data_after = request_data,
                calls = [IsInstructorCall request]\<rparr>
           | Inr resolved \<Rightarrow>
               (case fetch_last_answer_table_entry resolved of
                  Inl e \<Rightarrow>
                    \<lparr>returned = Inl e, data_after = resolved,
                     calls = [IsInstructorCall request, FetchCall resolved]\<rparr>
                | Inr row \<Rightarrow>
                    (if \<not> truthy row then
                       \<lparr>returned = Inr (PyStr ''''), data_after = resolved,
                        calls = [IsInstructorCall request, FetchCall resolved]\<rparr>
                     else
                       \<lparr>returned = Inr row, data_after = resolved,
                        calls = [IsInstructorCall request, FetchCall resolved,
                                 DebugLog row]\<rparr>))))"

text \<open>The arguments of the store lookups of a run, in order.\<close>

fun lookups :: "'r call list \<Rightarrow> 'r list" where
  "lookups [] = []"
| "lookups (FetchCall r # cs) = r # lookups cs"
| "lookups (c # cs) = lookups cs"

text \<open>The number of identity checks of a run.\<close>

fun identity_checks :: "'r call list \<Rightarrow> nat" where
  "identity_checks [] = 0"
| "identity_checks (IsInstructorCall q # cs) = Suc (identity_checks cs)"
| "identity_checks (c # cs) = identity_checks cs"

subsection \<open>The collaborators\<close>

text \<open>
  Modelled from the spec: \<^verbatim>\<open>is_instructor\<close> of \<^verbatim>\<open>bookserver/session.py\<close> is
  imported by the handler; its definition lies outside the module verified here. The spec makes the
  authentication layer, an external collaborator, fail with \<open>Unauthorized\<close> before any
  other logic of the operation when the request carries no authenticated identity, and
  makes the identity check answer a boolean for an authenticated caller; the handler's
  own comment places the 401 at its first statement, the call of
  \<^verbatim>\<open>is_instructor\<close>. The instructors of the request's course are given by their
  usernames.
\<close>

definition session_is_instructor :: "string list \<Rightarrow> Request \<Rightarrow> error + bool" where
  "session_is_instructor instructors request =
     (case user (state request) of
        None \<Rightarrow> Inl Unauthorized
      | Some u \<Rightarrow> Inr (username u \<in> set instructors))"

text \<open>
  Modelled from the spec: \<^verbatim>\<open>fetch_last_answer_table_entry\<close> of
  \<^verbatim>\<open>bookserver/crud.py\<close> is imported by the handler; its definition lies outside
  the module verified here. The spec describes a lookup addressed by subject, component and course that
  returns the most recent matching entry or \<^verbatim>\<open>None\<close>. The table lists the recorded
  answers with their keys, the most recent first.
\<close>

definition crud_fetch_last_answer_table_entry ::
  "((string \<times> string \<times> string) \<times> pyval) list \<Rightarrow> 'a AssessmentRequest_scheme \<Rightarrow> error + pyval" where
  "crud_fetch_last_answer_table_entry answers request_data =
     (case sid request_data of
        None \<Rightarrow> Inr PyNone
      | Some s \<Rightarrow>
          (case map_of answers (s, div_id request_data, course request_data) of
             None \<Rightarrow> Inr PyNone
           | Some row \<Rightarrow> Inr row))"

subsection \<open>The scenarios of the spec\<close>

text \<open>
  The callers and requests of the spec's examples: the instructor \<^verbatim>\<open>prof1\<close> and the
  student \<^verbatim>\<open>stu2\<close> of course \<^verbatim>\<open>cs101\<close>, asking for component \<^verbatim>\<open>q1\<close>.
\<close>

definition by_prof1 :: Request where
  "by_prof1 = \<lparr>state = \<lparr>user = Some \<lparr>username = ''prof1''\<rparr>\<rparr>\<rparr>"

definition by_stu2 :: Request where
  "by_stu2 = \<lparr>state = \<lparr>user = Some \<lparr>username = ''stu2''\<rparr>\<rparr>\<rparr>"

definition by_nobody :: Request where
  "by_nobody = \<lparr>state = \<lparr>user = None\<rparr>\<rparr>"

definition ask_q1 :: "string option \<Rightarrow> AssessmentRequest" where
  "ask_q1 s = \<lparr>sid = s, div_id = ''q1'', course = ''cs101''\<rparr>"

definition answer_of_stu1 :: pyval where
  "answer_of_stu1 = PyObject [(''sid'', PyStr ''stu1''), (''div_id'', PyStr ''q1''),
                            (''answer'', PyStr ''0''), (''correct'', PyBool True)]"

definition answer_of_stu2 :: pyval where
  "answer_of_stu2 = PyObject [(''sid'', PyStr ''stu2''), (''div_id'', PyStr ''q1''),
                            (''answer'', PyStr ''2''), (''correct'', PyBool False)]"

definition cs101_answers :: "((string \<times> string \<times> string) \<times> pyval) list" where
  "cs101_answers =
     [((''stu1'', ''q1'', ''cs101''), answer_of_stu1),
      ((''stu2'', ''q1'', ''cs101''), answer_of_stu2)]"

text \<open>
  A store that answers the lookup for \<^verbatim>\<open>stu2\<close> with an empty mapping: a value that
  is not \<^verbatim>\<open>None\<close> and fails the truth test.
\<close>

definition blank_answers :: "((string \<times> string \<times> string) \<times> pyval) list" where
  "blank_answers = [((''stu2'', ''q1'', ''cs101''), PyDict [])]"

lemmas scenario_defs =
  by_prof1_def by_stu2_def by_nobody_def ask_q1_def answer_of_stu1_def answer_of_stu2_def
  cs101_answers_def blank_answers_def session_is_instructor_def
  crud_fetch_last_answer_table_entry_def

section \<open>Properties\<close>

subsection \<open>The shape of a run\<close>

lemma lookups_of_run:
  "lookups (calls (get_assessment_results is_instr fetch rd rq)) =
     (case is_instr rq of
        Inl e \<Rightarrow> []
      | Inr b \<Rightarrow> (case resolve_sid b rd rq of Inl e \<Rightarrow> [] | Inr r \<Rightarrow> [r]))"
  by (simp add: get_assessment_results_def split: sum.splits)

lemma lookup_made:
  assumes "lookups (calls (get_assessment_results is_instr fetch rd rq)) = [r]"
  obtains b where "is_instr rq = Inr b" and "resolve_sid b rd rq = Inr r"
  using assms by (auto simp: lookups_of_run split: sum.splits)

lemma run_with_row:
  assumes "is_instr rq = Inr b"
    and "resolve_sid b rd rq = Inr r"
    and "fetch r = Inr v"
  shows "get_assessment_results is_instr fetch rd rq =
           (if truthy v then
              \<lparr>returned = Inr v, data_after = r,
               calls = [IsInstructorCall rq, FetchCall r, DebugLog v]\<rparr>
            else
              \<lparr>returned = Inr (PyStr []), data_after = r,
               calls = [IsInstructorCall rq, FetchCall r]\<rparr>)"
  using assms by (simp add: get_assessment_results_def)

lemma returned_of_run:
  assumes "lookups (calls (get_assessment_results is_instr fetch rd rq)) = [r]"
    and "fetch r = Inr v"
  shows "returned (get_assessment_results is_instr fetch rd rq)
           = Inr (if truthy v then v else PyStr [])"
proof -
  from assms(1) obtain b where "is_instr rq = Inr b" and "resolve_sid b rd rq = Inr r"
    by (rule lookup_made)
  with assms(2) show ?thesis
    by (simp add: run_with_row)
qed

lemma log_of_run:
  assumes "lookups (calls (get_assessment_results is_instr fetch rd rq)) = [r]"
    and "fetch r = Inr v"
  shows "calls (get_assessment_results is_instr fetch rd rq) =
           (if truthy v then [IsInstructorCall rq, FetchCall r, DebugLog v]
            else [IsInstructorCall rq, FetchCall r])"
proof -
  from assms(1) obtain b where "is_instr rq = Inr b" and "resolve_sid b rd rq = Inr r"
    by (rule lookup_made)
  with assms(2) show ?thesis
    by (simp add: run_with_row)
qed

lemma entry_truthy:
  "is_AnswerTableEntry E \<Longrightarrow> truthy E"
  by (cases E) simp_all

lemma resolve_sid_frame:
  "resolve_sid b rd rq = Inr r \<Longrightarrow> r = rd\<lparr>sid := sid r\<rparr>"
  by (auto simp: resolve_sid_def split: if_splits sum.splits)

text \<open>
  An exception of the identity check leaves the handler as it is: the request data
  are untouched and the check is the only call made.
\<close>

lemma identity_check_raises:
  "is_instr rq = Inl e \<Longrightarrow>
     get_assessment_results is_instr fetch rd rq =
       \<lparr>returned = Inl e, data_after = rd, calls = [IsInstructorCall rq]\<rparr>"
  by (simp add: get_assessment_results_def)

text \<open>
  The handler has no check of its own for a missing user: were the identity check to
  answer for such a request, reading the username would raise.
\<close>

lemma missing_user_attribute_error:
  "user (state rq) = None \<Longrightarrow> is_instr rq = Inr False \<Longrightarrow>
     returned (get_assessment_results is_instr fetch rd rq) = Inl AttributeError"
  by (simp add: get_assessment_results_def resolve_sid_def caller_username_def)

subsection \<open>Subject resolution\<close>

text \<open>
  C1. When the identity check answers that the caller is not an instructor, the handler
  makes exactly one store lookup, and the \<^verbatim>\<open>sid\<close> of the request it passes is the
  caller's username, whatever \<^verbatim>\<open>sid\<close> the client sent (none, the empty string, the
  caller's own name or another one): the client's value is overwritten.
\<close>

theorem non_instructor_sid_overwritten:
  assumes "is_instr rq = Inr False"
    and "user (state rq) = Some u"
  shows "map sid (lookups (calls (get_assessment_results is_instr fetch rd rq)))
           = [Some (username u)]"
  using assms by (simp add: lookups_of_run resolve_sid_def caller_username_def)

text \<open>The student \<^verbatim>\<open>stu2\<close> asks for the answer of \<^verbatim>\<open>stu1\<close> and gets the own one.\<close>

theorem non_instructor_sid_overwritten_witness:
  "session_is_instructor [''prof1''] by_stu2 = Inr False
   \<and> user (state by_stu2) = Some \<lparr>username = ''stu2''\<rparr>
   \<and> map sid (lookups (calls (get_assessment_results (session_is_instructor [''prof1''])
        (crud_fetch_last_answer_table_entry cs101_answers) (ask_q1 (Some ''stu1'')) by_stu2)))
       = [Some ''stu2'']"
proof -
  have a: "session_is_instructor [''prof1''] by_stu2 = Inr False"
    by (simp add: scenario_defs)
  have b: "user (state by_stu2) = Some \<lparr>username = ''stu2''\<rparr>"
    by (simp add: scenario_defs)
  show ?thesis
    using a b non_instructor_sid_overwritten
      [where is_instr = "session_is_instructor [''prof1'']" and rq = by_stu2, OF a b] by simp
qed

text \<open>
  C2. When the identity check answers that the caller is an instructor and the request
  has no \<^verbatim>\<open>sid\<close> or the empty one, the handler makes exactly one store lookup, and
  the \<^verbatim>\<open>sid\<close> of the request it passes is the caller's username.
\<close>

theorem instructor_default_sid:
  assumes "is_instr rq = Inr True"
    and "sid rd = None \<or> sid rd = Some []"
    and "user (state rq) = Some u"
  shows "map sid (lookups (calls (get_assessment_results is_instr fetch rd rq)))
           = [Some (username u)]"
  using assms by (auto simp: lookups_of_run resolve_sid_def caller_username_def)

theorem instructor_default_sid_witness:
  "session_is_instructor [''prof1''] by_prof1 = Inr True
   \<and> (sid (ask_q1 (Some [])) = None \<or> sid (ask_q1 (Some [])) = Some [])
   \<and> user (state by_prof1) = Some \<lparr>username = ''prof1''\<rparr>
   \<and> map sid (lookups (calls (get_assessment_results (session_is_instructor [''prof1''])
        (crud_fetch_last_answer_table_entry cs101_answers) (ask_q1 (Some [])) by_prof1)))
       = [Some ''prof1'']"
proof -
  have a: "session_is_instructor [''prof1''] by_prof1 = Inr True"
    by (simp add: scenario_defs)
  have b: "sid (ask_q1 (Some [])) = None \<or> sid (ask_q1 (Some [])) = Some []"
    by (simp add: scenario_defs)
  have c: "user (state by_prof1) = Some \<lparr>username = ''prof1''\<rparr>"
    by (simp add: scenario_defs)
  show ?thesis
    using a b c instructor_default_sid
      [where is_instr = "session_is_instructor [''prof1'']" and rq = by_prof1, OF a b c] by simp
qed

text \<open>
  C3. When the identity check answers that the caller is an instructor and the request
  carries a non-empty \<^verbatim>\<open>sid\<close> \<open>S\<close>, the caller's own name or any other, the handler
  makes exactly one store lookup, and the \<^verbatim>\<open>sid\<close> of the request it passes is \<open>S\<close>.
\<close>

theorem instructor_sid_kept:
  assumes "is_instr rq = Inr True"
    and "sid rd = Some S"
    and "S \<noteq> []"
  shows "map sid (lookups (calls (get_assessment_results is_instr fetch rd rq))) = [Some S]"
  using assms by (simp add: lookups_of_run resolve_sid_def)

theorem instructor_sid_kept_witness:
  "session_is_instructor [''prof1''] by_prof1 = Inr True
   \<and> sid (ask_q1 (Some ''stu1'')) = Some ''stu1''
   \<and> ''stu1'' \<noteq> []
   \<and> map sid (lookups (calls (get_assessment_results (session_is_instructor [''prof1''])
        (crud_fetch_last_answer_table_entry cs101_answers) (ask_q1 (Some ''stu1'')) by_prof1)))
       = [Some ''stu1'']"
proof -
  have a: "session_is_instructor [''prof1''] by_prof1 = Inr True"
    by (simp add: scenario_defs)
  have b: "sid (ask_q1 (Some ''stu1'')) = Some ''stu1''"
    by (simp add: scenario_defs)
  have c: "''stu1'' \<noteq> []"
    by simp
  show ?thesis
    using a b c instructor_sid_kept
      [where is_instr = "session_is_instructor [''prof1'']" and rq = by_prof1, OF a b c] by simp
qed

text \<open>
  C6. When the identity check answers for an authenticated caller whose username is not
  empty, the handler makes exactly one store lookup, and the \<^verbatim>\<open>sid\<close> of the request
  it passes is neither missing nor empty; it is the caller's username or, only when the
  check answered that the caller is an instructor, the \<^verbatim>\<open>sid\<close> the request came with.
\<close>

theorem resolved_sid_invariant:
  assumes "is_instr rq = Inr b"
    and "user (state rq) = Some u"
    and "username u \<noteq> []"
  shows "\<exists>r. lookups (calls (get_assessment_results is_instr fetch rd rq)) = [r]
             \<and> truthy_sid (sid r)
             \<and> (sid r = Some (username u) \<or> (b \<and> sid r = sid rd))"
proof (cases "b \<and> truthy_sid (sid rd)")
  case True
  with assms(1) show ?thesis
    by (simp add: lookups_of_run resolve_sid_def)
next
  case False
  with assms show ?thesis
    by (auto simp: lookups_of_run resolve_sid_def caller_username_def)
qed

theorem resolved_sid_invariant_witness:
  "session_is_instructor [''prof1''] by_prof1 = Inr True
   \<and> user (state by_prof1) = Some \<lparr>username = ''prof1''\<rparr>
   \<and> username \<lparr>username = ''prof1''\<rparr> \<noteq> []
   \<and> (\<exists>r. lookups (calls (get_assessment_results (session_is_instructor [''prof1''])
              (crud_fetch_last_answer_table_entry cs101_answers) (ask_q1 (Some ''stu1''))
              by_prof1)) = [r]
          \<and> truthy_sid (sid r)
          \<and> (sid r = Some (username \<lparr>username = ''prof1''\<rparr>)
               \<or> (True \<and> sid r = sid (ask_q1 (Some ''stu1'')))))"
proof -
  have a: "session_is_instructor [''prof1''] by_prof1 = Inr True"
    by (simp add: scenario_defs)
  have b: "user (state by_prof1) = Some \<lparr>username = ''prof1''\<rparr>"
    by (simp add: scenario_defs)
  have c: "username \<lparr>username = ''prof1''\<rparr> \<noteq> []"
    by simp
  show ?thesis
    using a b c resolved_sid_invariant
      [where is_instr = "session_is_instructor [''prof1'']" and rq = by_prof1, OF a b c]
    by blast
qed

text \<open>
  C10. The request that the handler passes to the store lookup differs from the one it
  received in the \<^verbatim>\<open>sid\<close> at most: \<^verbatim>\<open>div_id\<close>, \<^verbatim>\<open>course\<close> and every further
  field have the values the client supplied.
\<close>

theorem only_sid_changes:
  assumes "r \<in> set (lookups (calls (get_assessment_results is_instr fetch rd rq)))"
  shows "div_id r = div_id rd \<and> course r = course rd
         \<and> AssessmentRequest.more r = AssessmentRequest.more rd"
proof -
  from assms obtain b where "resolve_sid b rd rq = Inr r"
    by (auto simp: lookups_of_run split: sum.splits)
  then have "r = rd\<lparr>sid := sid r\<rparr>"
    by (rule resolve_sid_frame)
  then show ?thesis
    by (metis AssessmentRequest.select_convs(2,3,4) AssessmentRequest.surjective
        AssessmentRequest.update_convs(1))
qed

text \<open>A request with a further field, the kind of event, asked by \<^verbatim>\<open>stu2\<close>.\<close>

theorem only_sid_changes_witness:
  "\<lparr>sid = Some ''stu2'', div_id = ''q1'', course = ''cs101'', \<dots> = ''mChoice''\<rparr>
     \<in> set (lookups (calls (get_assessment_results (session_is_instructor [''prof1''])
          (crud_fetch_last_answer_table_entry cs101_answers)
          \<lparr>sid = Some ''stu1'', div_id = ''q1'', course = ''cs101'', \<dots> = ''mChoice''\<rparr>
          by_stu2)))
   \<and> div_id \<lparr>sid = Some ''stu2'', div_id = ''q1'', course = ''cs101'', \<dots> = ''mChoice''\<rparr>
       = ''q1''
   \<and> course \<lparr>sid = Some ''stu2'', div_id = ''q1'', course = ''cs101'', \<dots> = ''mChoice''\<rparr>
       = ''cs101''
   \<and> AssessmentRequest.more
        \<lparr>sid = Some ''stu2'', div_id = ''q1'', course = ''cs101'', \<dots> = ''mChoice''\<rparr>
       = ''mChoice''"
proof -
  have a: "\<lparr>sid = Some ''stu2'', div_id = ''q1'', course = ''cs101'', \<dots> = ''mChoice''\<rparr>
     \<in> set (lookups (calls (get_assessment_results (session_is_instructor [''prof1''])
          (crud_fetch_last_answer_table_entry cs101_answers)
          \<lparr>sid = Some ''stu1'', div_id = ''q1'', course = ''cs101'', \<dots> = ''mChoice''\<rparr>
          by_stu2)))"
    by (simp add: lookups_of_run resolve_sid_def caller_username_def scenario_defs)
  show ?thesis
    using a only_sid_changes [OF a] by simp
qed

subsection \<open>What the handler returns\<close>

text \<open>
  C4. When the store lookup for the resolved request returns an entry \<open>E\<close> of an
  answer table, the handler returns \<open>E\<close> itself: nothing is computed from it, added
  to it or taken from it.
\<close>

theorem entry_passed_through:
  assumes "lookups (calls (get_assessment_results is_instr fetch rd rq)) = [r]"
    and "fetch r = Inr E"
    and "is_AnswerTableEntry E"
  shows "returned (get_assessment_results is_instr fetch rd rq) = Inr E"
  using returned_of_run [OF assms(1,2)] entry_truthy [OF assms(3)] by simp

text \<open>The student \<^verbatim>\<open>stu2\<close> sends no \<^verbatim>\<open>sid\<close> and receives the own row as stored.\<close>

theorem entry_passed_through_witness:
  "lookups (calls (get_assessment_results (session_is_instructor [''prof1''])
       (crud_fetch_last_answer_table_entry cs101_answers) (ask_q1 None) by_stu2))
     = [ask_q1 (Some ''stu2'')]
   \<and> crud_fetch_last_answer_table_entry cs101_answers (ask_q1 (Some ''stu2''))
       = Inr answer_of_stu2
   \<and> is_AnswerTableEntry answer_of_stu2
   \<and> returned (get_assessment_results (session_is_instructor [''prof1''])
       (crud_fetch_last_answer_table_entry cs101_answers) (ask_q1 None) by_stu2)
       = Inr answer_of_stu2"
proof -
  have a: "lookups (calls (get_assessment_results (session_is_instructor [''prof1''])
       (crud_fetch_last_answer_table_entry cs101_answers) (ask_q1 None) by_stu2))
     = [ask_q1 (Some ''stu2'')]"
    by (simp add: lookups_of_run resolve_sid_def caller_username_def scenario_defs)
  have b: "crud_fetch_last_answer_table_entry cs101_answers (ask_q1 (Some ''stu2''))
       = Inr answer_of_stu2"
    by (simp add: scenario_defs)
  have c: "is_AnswerTableEntry answer_of_stu2"
    by (simp add: scenario_defs)
  show ?thesis
    using a b c entry_passed_through [OF a b c] by simp
qed

text \<open>
  C5. When the store lookup for the resolved request returns \<^verbatim>\<open>None\<close>, the handler
  returns the empty string: a value, not an exception, and not \<^verbatim>\<open>None\<close>.
\<close>

theorem no_entry_gives_empty_string:
  assumes "lookups (calls (get_assessment_results is_instr fetch rd rq)) = [r]"
    and "fetch r = Inr PyNone"
  shows "returned (get_assessment_results is_instr fetch rd rq) = Inr (PyStr '''')"
  using returned_of_run [OF assms] by simp

text \<open>The instructor asks for a student who has no recorded answer.\<close>

theorem no_entry_gives_empty_string_witness:
  "lookups (calls (get_assessment_results (session_is_instructor [''prof1''])
       (crud_fetch_last_answer_table_entry cs101_answers) (ask_q1 (Some ''stu3'')) by_prof1))
     = [ask_q1 (Some ''stu3'')]
   \<and> crud_fetch_last_answer_table_entry cs101_answers (ask_q1 (Some ''stu3'')) = Inr PyNone
   \<and> returned (get_assessment_results (session_is_instructor [''prof1''])
       (crud_fetch_last_answer_table_entry cs101_answers) (ask_q1 (Some ''stu3'')) by_prof1)
       = Inr (PyStr '''')"
proof -
  have a: "lookups (calls (get_assessment_results (session_is_instructor [''prof1''])
       (crud_fetch_last_answer_table_entry cs101_answers) (ask_q1 (Some ''stu3'')) by_prof1))
     = [ask_q1 (Some ''stu3'')]"
    by (simp add: lookups_of_run resolve_sid_def scenario_defs)
  have b: "crud_fetch_last_answer_table_entry cs101_answers (ask_q1 (Some ''stu3''))
       = Inr PyNone"
    by (simp add: scenario_defs)
  show ?thesis
    using a b no_entry_gives_empty_string [OF a b] by simp
qed

text \<open>
  C9. Whatever value \<open>v\<close> the store lookup returns, the handler returns the empty string
  when \<open>v\<close> fails Python's truth test (\<^verbatim>\<open>None\<close>, but also an empty record or an
  empty collection) and \<open>v\<close> itself when it passes; the branch that logs and returns
  the row is taken exactly when \<open>v\<close> passes the test.
\<close>

theorem falsy_row_gives_empty_string:
  assumes "lookups (calls (get_assessment_results is_instr fetch rd rq)) = [r]"
    and "fetch r = Inr v"
  shows "returned (get_assessment_results is_instr fetch rd rq)
           = Inr (if truthy v then v else PyStr '''')
         \<and> (DebugLog v \<in> set (calls (get_assessment_results is_instr fetch rd rq))
              \<longleftrightarrow> truthy v)"
  using returned_of_run [OF assms] log_of_run [OF assms] by simp

theorem falsy_row_gives_empty_string_witness:
  "lookups (calls (get_assessment_results (session_is_instructor [''prof1''])
       (crud_fetch_last_answer_table_entry blank_answers) (ask_q1 (Some ''stu2'')) by_prof1))
     = [ask_q1 (Some ''stu2'')]
   \<and> crud_fetch_last_answer_table_entry blank_answers (ask_q1 (Some ''stu2''))
       = Inr (PyDict [])
   \<and> \<not> truthy (PyDict [])
   \<and> returned (get_assessment_results (session_is_instructor [''prof1''])
       (crud_fetch_last_answer_table_entry blank_answers) (ask_q1 (Some ''stu2'')) by_prof1)
       = Inr (PyStr '''')
   \<and> DebugLog (PyDict []) \<notin> set (calls (get_assessment_results
       (session_is_instructor [''prof1'']) (crud_fetch_last_answer_table_entry blank_answers)
       (ask_q1 (Some ''stu2'')) by_prof1))"
proof -
  have a: "lookups (calls (get_assessment_results (session_is_instructor [''prof1''])
       (crud_fetch_last_answer_table_entry blank_answers) (ask_q1 (Some ''stu2'')) by_prof1))
     = [ask_q1 (Some ''stu2'')]"
    by (simp add: lookups_of_run resolve_sid_def scenario_defs)
  have b: "crud_fetch_last_answer_table_entry blank_answers (ask_q1 (Some ''stu2''))
       = Inr (PyDict [])"
    by (simp add: scenario_defs)
  show ?thesis
    using a b falsy_row_gives_empty_string [OF a b] by simp
qed

subsection \<open>Failure and order\<close>

text \<open>
  C7. A request without an authenticated identity is answered with \<open>Unauthorized\<close>: the
  identity check raises it, the handler does not branch on an answer, the request data
  are left as they came, and the store is not queried.
\<close>

theorem unauthenticated_rejected:
  assumes "user (state rq) = None"
  shows "get_assessment_results (session_is_instructor instructors) fetch rd rq =
           \<lparr>returned = Inl Unauthorized, data_after = rd, calls = [IsInstructorCall rq]\<rparr>"
proof -
  from assms have "session_is_instructor instructors rq = Inl Unauthorized"
    by (simp add: session_is_instructor_def)
  then show ?thesis
    by (rule identity_check_raises)
qed

theorem unauthenticated_rejected_witness:
  "user (state by_nobody) = None
   \<and> get_assessment_results (session_is_instructor [''prof1''])
       (crud_fetch_last_answer_table_entry cs101_answers) (ask_q1 (Some ''stu1'')) by_nobody =
       \<lparr>returned = Inl Unauthorized, data_after = ask_q1 (Some ''stu1''),
        calls = [IsInstructorCall by_nobody]\<rparr>
   \<and> lookups [IsInstructorCall by_nobody :: AssessmentRequest call] = []"
proof -
  have a: "user (state by_nobody) = None"
    by (simp add: scenario_defs)
  show ?thesis
    using a unauthenticated_rejected [OF a] by simp
qed

text \<open>
  C8. A run of the handler begins with its identity check and makes no other; it makes
  at most one store lookup, and that one after the check.
\<close>

theorem one_check_then_at_most_one_lookup:
  "identity_checks (calls (get_assessment_results is_instr fetch rd rq)) \<le> 1
   \<and> length (lookups (calls (get_assessment_results is_instr fetch rd rq))) \<le> 1
   \<and> (\<exists>rest. calls (get_assessment_results is_instr fetch rd rq) = IsInstructorCall rq # rest
          \<and> identity_checks rest = 0)"
  by (simp add: get_assessment_results_def split: sum.splits)

end
